theory Spec2Isabelle
  imports Complex_Main "HOL-Library.Sublist" "HOL-Library.AList"
begin

section \<open>Python values, exceptions and the operations the script applies to them\<close>

text \<open>
  The script \<^verbatim>\<open>getRecipe.py\<close> works on values decoded from JSON (the API response and
  the cache file) and on the dictionaries it builds from them. A value is a \<open>pyval\<close>; a
  dictionary is an association list in insertion order whose keys are compared with
  Python's equality on hashable values. A text is a list of characters, each a code point
  below 256.
\<close>

datatype error =
    KeyError | TypeError | AttributeError | ValueError | JSONDecodeError | RecursionError
  | RequestException | HTTPError | OSError | StoreError

datatype pyfloat = Finite rat | Infinite bool | NaN

datatype pyval =
    PNone
  | PBool bool
  | PInt int
  | PFloat pyfloat
  | PStr string
  | PList "pyval list"
  | PDict "(pyval \<times> pyval) list"

definition and_then :: "error + 'a \<Rightarrow> ('a \<Rightarrow> error + 'b) \<Rightarrow> error + 'b" where
  "and_then m f = (case m of Inl e \<Rightarrow> Inl e | Inr x \<Rightarrow> f x)"

text \<open>Truth value testing: \<^verbatim>\<open>if x\<close>, \<^verbatim>\<open>not x\<close>.\<close>

fun truthy :: "pyval \<Rightarrow> bool" where
  "truthy PNone = False"
| "truthy (PBool b) = b"
| "truthy (PInt n) = (n \<noteq> 0)"
| "truthy (PFloat f) = (f \<noteq> Finite 0)"
| "truthy (PStr s) = (s \<noteq> [])"
| "truthy (PList xs) = (xs \<noteq> [])"
| "truthy (PDict kvs) = (kvs \<noteq> [])"

text \<open>Lists and dictionaries are unhashable: they raise TypeError as a key or set element.\<close>

fun hashable :: "pyval \<Rightarrow> bool" where
  "hashable (PList xs) = False"
| "hashable (PDict kvs) = False"
| "hashable v = True"

fun num_of :: "pyval \<Rightarrow> rat option" where
  "num_of (PBool b) = Some (if b then 1 else 0)"
| "num_of (PInt n) = Some (of_int n)"
| "num_of (PFloat (Finite r)) = Some r"
| "num_of v = None"

text \<open>Equality of hashable values: numbers by value (\<^verbatim>\<open>1 == True == 1.0\<close>), the rest by
  content; a NaN equals nothing.\<close>

definition py_eq :: "pyval \<Rightarrow> pyval \<Rightarrow> bool" where
  "py_eq a b =
     (case (num_of a, num_of b) of
        (Some x, Some y) \<Rightarrow> x = y
      | (None, None) \<Rightarrow> a = b \<and> a \<noteq> PFloat NaN
      | (Some x, None) \<Rightarrow> False
      | (None, Some y) \<Rightarrow> False)"

fun dict_lookup :: "(pyval \<times> pyval) list \<Rightarrow> pyval \<Rightarrow> pyval option" where
  "dict_lookup [] k = None"
| "dict_lookup ((k', v) # kvs) k = (if py_eq k' k then Some v else dict_lookup kvs k)"

text \<open>\<^verbatim>\<open>d[k] = v\<close> on the entries of a dictionary: an existing key keeps its place.\<close>

fun dict_store :: "(pyval \<times> pyval) list \<Rightarrow> pyval \<Rightarrow> pyval \<Rightarrow> (pyval \<times> pyval) list" where
  "dict_store [] k v = [(k, v)]"
| "dict_store ((k', v') # kvs) k v =
     (if py_eq k' k then (k', v) # kvs else (k', v') # dict_store kvs k v)"

text \<open>\<^verbatim>\<open>obj['key']\<close>: KeyError on a dictionary without the key, TypeError on anything that is
  not a dictionary (a list or a string takes integer indices, the rest is not
  subscriptable).\<close>

fun getitem :: "pyval \<Rightarrow> string \<Rightarrow> error + pyval" where
  "getitem (PDict kvs) k =
     (case dict_lookup kvs (PStr k) of Some v \<Rightarrow> Inr v | None \<Rightarrow> Inl KeyError)"
| "getitem v k = Inl TypeError"

text \<open>\<^verbatim>\<open>obj.get('key', default)\<close>: only a dictionary has the method.\<close>

fun get_default :: "pyval \<Rightarrow> string \<Rightarrow> pyval \<Rightarrow> error + pyval" where
  "get_default (PDict kvs) k d =
     (case dict_lookup kvs (PStr k) of Some v \<Rightarrow> Inr v | None \<Rightarrow> Inr d)"
| "get_default v k d = Inl AttributeError"

text \<open>\<^verbatim>\<open>obj['key'] = value\<close>.\<close>

fun setitem :: "pyval \<Rightarrow> string \<Rightarrow> pyval \<Rightarrow> error + pyval" where
  "setitem (PDict kvs) k v = Inr (PDict (dict_store kvs (PStr k) v))"
| "setitem c k v = Inl TypeError"

text \<open>\<^verbatim>\<open>for x in obj\<close>: the elements of a list, the keys of a dictionary, the characters of
  a string; TypeError on a value that is not iterable.\<close>

fun iterate :: "pyval \<Rightarrow> error + pyval list" where
  "iterate (PList xs) = Inr xs"
| "iterate (PDict kvs) = Inr (map fst kvs)"
| "iterate (PStr s) = Inr (map (\<lambda>c. PStr [c]) s)"
| "iterate v = Inl TypeError"

section \<open>The regular expressions\<close>

text \<open>
  On code points below 256 the class \<^verbatim>\<open>\d\<close> is \<^verbatim>\<open>[0-9]\<close> and \<^verbatim>\<open>\s\<close> is the whitespace of
  \<^verbatim>\<open>str.isspace\<close>: tab to carriage return, the four separators 28 to 31, the space, 133
  and 160. The dot matches everything but the line feed.
\<close>

definition is_digit :: "char \<Rightarrow> bool" where
  "is_digit c = (48 \<le> (of_char c :: nat) \<and> (of_char c :: nat) \<le> 57)"

definition is_letter :: "char \<Rightarrow> bool" where
  "is_letter c =
     ((97 \<le> (of_char c :: nat) \<and> (of_char c :: nat) \<le> 122) \<or>
      (65 \<le> (of_char c :: nat) \<and> (of_char c :: nat) \<le> 90))"

definition is_space :: "char \<Rightarrow> bool" where
  "is_space c = ((of_char c :: nat) \<in> {9, 10, 11, 12, 13, 28, 29, 30, 31, 32, 133, 160})"

text \<open>The group of \<^verbatim>\<open><b>(.*?)</b>\<close> once \<^verbatim>\<open><b>\<close> is read: the shortest run of characters
  other than the line feed that is followed by \<^verbatim>\<open></b>\<close>, with the text after the match.\<close>

fun lazy_group :: "string \<Rightarrow> (string \<times> string) option" where
  "lazy_group [] = None"
| "lazy_group (c # cs) =
     (if prefix ''</b>'' (c # cs) then Some ([], drop 4 (c # cs))
      else if c = CHR 0x0A then None
      else map_option (\<lambda>(g, r). (c # g, r)) (lazy_group cs))"

lemma lazy_group_length:
  "lazy_group s = Some (g, r) \<Longrightarrow> length r < length s"
proof (induction s arbitrary: g r)
  case Nil
  then show ?case by simp
next
  case (Cons c cs)
  show ?case
  proof (cases "prefix ''</b>'' (c # cs)")
    case True
    with Cons.prems show ?thesis by auto
  next
    case False
    with Cons.prems obtain g' where "lazy_group cs = Some (g', r)"
      by (auto split: if_splits)
    with Cons.IH show ?thesis by fastforce
  qed
qed

text \<open>\<^verbatim>\<open>re.findall(r'<b>(.*?)</b>', text)\<close>: the matches from left to right, each search
  starting where the last match ended, or one character on where none starts.\<close>

function findall_b :: "string \<Rightarrow> string list" where
  "findall_b [] = []"
| "findall_b (c # cs) =
     (if prefix ''<b>'' (c # cs) then
        (case lazy_group (drop 3 (c # cs)) of
           Some (g, r) \<Rightarrow> g # findall_b r
         | None \<Rightarrow> findall_b cs)
      else findall_b cs)"
  by pat_completeness auto
termination findall_b
proof (relation "measure length")
  show "wf (measure length)" by simp
next
  fix c cs x2 g r
  assume "lazy_group (drop 3 (c # cs)) = Some x2" and "(g, r) = x2"
  then have "length r < length (drop 3 (c # cs))"
    using lazy_group_length by metis
  then show "(r, c # cs) \<in> measure length" by simp
qed simp_all

text \<open>\<^verbatim>\<open>\d+\<close> followed by a literal, matched at the start of the text, and searched
  anywhere in it (\<^verbatim>\<open>re.search\<close>).\<close>

fun digits_then :: "string \<Rightarrow> string \<Rightarrow> bool" where
  "digits_then lit [] = False"
| "digits_then lit (c # cs) = (is_digit c \<and> (digits_then lit cs \<or> prefix lit cs))"

fun re_search :: "string \<Rightarrow> string \<Rightarrow> bool" where
  "re_search lit [] = False"
| "re_search lit (c # cs) = (digits_then lit (c # cs) \<or> re_search lit cs)"

text \<open>\<^verbatim>\<open>re.sub(r'[^0-9a-zA-Z\s]', '', tag)\<close>.\<close>

definition clean :: "string \<Rightarrow> string" where
  "clean tag = filter (\<lambda>c. is_digit c \<or> is_letter c \<or> is_space c) tag"

section \<open>Nutrition categorization\<close>

text \<open>The dictionary \<^verbatim>\<open>categories\<close> in its insertion order; each pattern is \<^verbatim>\<open>\d+\<close>
  followed by the literal given here.\<close>

definition categories :: "(string \<times> string) list" where
  "categories =
     [(''Cost per serving'', '' cents per serving''),
      (''Protein'', ''g of protein''),
      (''Fat'', ''g of fat''),
      (''Calories'', '' calories'')]"

text \<open>The inner loop of \<^verbatim>\<open>extract_and_categorize\<close>, which leaves at the first match.\<close>

fun categorize :: "(string \<times> string) list \<Rightarrow> string \<Rightarrow> (string \<times> string) list \<Rightarrow> (string \<times> string) list" where
  "categorize [] tag data = data"
| "categorize ((category, pattern) # rest) tag data =
     (if re_search pattern tag then AList.update category (clean tag) data
      else categorize rest tag data)"

definition extract_and_categorize :: "string \<Rightarrow> (string \<times> string) list" where
  "extract_and_categorize text =
     foldl (\<lambda>data tag. categorize categories tag data) [] (findall_b text)"

text \<open>The category of a fragment as the specification words it: the first of the four
  whose pattern the fragment matches.\<close>

definition first_category :: "string \<Rightarrow> string option" where
  "first_category tag =
     (if re_search '' cents per serving'' tag then Some ''Cost per serving''
      else if re_search ''g of protein'' tag then Some ''Protein''
      else if re_search ''g of fat'' tag then Some ''Fat''
      else if re_search '' calories'' tag then Some ''Calories''
      else None)"

section \<open>The calorie value\<close>

text \<open>\<^verbatim>\<open>int(s)\<close> on a text of digits, the only texts it is applied to. It raises ValueError
  on the empty text, and on a text of more than 640 digits when the interpreter has a
  limit for the conversion, \<^verbatim>\<open>sys.get_int_max_str_digits()\<close>, that the text exceeds. The
  limit is 4300 unless it is set otherwise; 0 stands for no limit, also that of an
  interpreter which has none.\<close>

definition digit_of :: "char \<Rightarrow> int" where
  "digit_of c = int (of_char c) - 48"

definition int_of_digits :: "nat \<Rightarrow> string \<Rightarrow> error + int" where
  "int_of_digits max_str_digits s =
     (if s = [] then Inl ValueError
      else if 640 < length s \<and> 0 < max_str_digits \<and> max_str_digits < length s
      then Inl ValueError
      else Inr (foldl (\<lambda>n c. 10 * n + digit_of c) 0 s))"

text \<open>Lines 119 to 129 of \<^verbatim>\<open>store_recipes\<close>: \<^verbatim>\<open>re.sub(r'\D', '', ...)\<close> keeps the digits.\<close>

definition derive_calories :: "nat \<Rightarrow> (string \<times> string) list \<Rightarrow> error + int" where
  "derive_calories max_str_digits nutritional_info =
     (case map_of nutritional_info ''Calories'' of
        Some calories_str \<Rightarrow> int_of_digits max_str_digits (filter is_digit calories_str)
      | None \<Rightarrow> Inr 0)"

section \<open>The world outside the script\<close>

text \<open>
  The script calls \<^verbatim>\<open>json\<close>, \<^verbatim>\<open>requests\<close>, the document store's client and \<^verbatim>\<open>str\<close>.
  Their behaviour is an \<open>env\<close>, taken as a parameter by every function that calls them:
  \<^item> \<open>repr_of\<close> is \<^verbatim>\<open>str(x)\<close> for a float, a list or a dictionary;
  \<^item> \<open>int_max_str_digits\<close> is the interpreter's limit for \<^verbatim>\<open>int(s)\<close>;
  \<^item> \<open>json_loads\<close> decodes the text of the cache file, \<open>None\<close> standing for
    \<^verbatim>\<open>json.JSONDecodeError\<close>, and \<open>json_dumps\<close> is the text \<^verbatim>\<open>json.dump\<close> writes;
  \<^item> \<open>listing\<close> is what \<^verbatim>\<open>db.collection('recipes').stream()\<close> yields: the identifiers
    of the documents, and the error that ends the iteration, if one does;
  \<^item> \<open>requests_get\<close> is the outcome of \<^verbatim>\<open>requests.get(url)\<close>: an exception or a response,
    of which \<open>status_error\<close> is what \<^verbatim>\<open>raise_for_status()\<close> raises and \<open>json_body\<close>
    what \<^verbatim>\<open>json()\<close> returns or raises;
  \<^item> \<open>document_error\<close> is the exception \<^verbatim>\<open>document(id)\<close> raises for an identifier;
  \<^item> \<open>set_error n\<close> and \<open>write_error n\<close> tell whether the call of \<^verbatim>\<open>doc_ref.set\<close> or the
    writing of the cache file raises when it is call number \<open>n\<close> of the run, and, for the
    file, what is left of it.

  The statements at module level (the environment variables, the credentials and the
  client of the store) are not part of the model: a run starts at \<^verbatim>\<open>__main__\<close>, with a
  cache file that is missing or holds a text which can be read. \<^verbatim>\<open>print\<close> does not fail.
\<close>

record response =
  status_error :: "error option"
  json_body :: "error + pyval"

record env =
  repr_of :: "pyval \<Rightarrow> string"
  int_max_str_digits :: nat
  json_loads :: "string \<Rightarrow> pyval option"
  json_dumps :: "pyval \<Rightarrow> string"
  listing :: "string list \<times> error option"
  requests_get :: "error + response"
  document_error :: "string \<Rightarrow> error option"
  set_error :: "nat \<Rightarrow> error option"
  write_error :: "nat \<Rightarrow> (error \<times> string option) option"

text \<open>\<^verbatim>\<open>str(x)\<close>, which is also what an f-string prints for \<^verbatim>\<open>{x}\<close>: the decimal digits
  of an integer, a string as it is.\<close>

function str_nat :: "nat \<Rightarrow> string" where
  "str_nat n =
     (if n < 10 then [''0123456789'' ! n]
      else str_nat (n div 10) @ [''0123456789'' ! (n mod 10)])"
  by pat_completeness auto
termination str_nat
  by (relation "measure id") auto

declare str_nat.simps [simp del]

definition str_int :: "int \<Rightarrow> string" where
  "str_int i = (if i < 0 then CHR ''-'' # str_nat (nat (- i)) else str_nat (nat i))"

definition py_str :: "env \<Rightarrow> pyval \<Rightarrow> string" where
  "py_str env v =
     (case v of
        PNone \<Rightarrow> ''None''
      | PBool b \<Rightarrow> (if b then ''True'' else ''False'')
      | PInt i \<Rightarrow> str_int i
      | PStr s \<Rightarrow> s
      | _ \<Rightarrow> repr_of env v)"

text \<open>What the script prints, and what it does to the store, the cache and the file.\<close>

datatype message =
    Fetch_failed error
  | Stored pyval
  | Duplicate pyval
  | Store_failed pyval error
  | All_stored
  | Nothing_to_store

datatype event =
    Print message
  | Db_stream
  | Db_set string pyval
  | Cache_add string
  | File_write string

text \<open>The state of a run: the global \<^verbatim>\<open>uid_cache\<close>, the text of the cache file (\<open>None\<close>
  when the file does not exist), the events so far and the number of calls of
  \<^verbatim>\<open>doc_ref.set\<close> and file writes so far.\<close>

record state =
  uid_cache :: pyval
  cache_file :: "string option"
  events :: "event list"
  calls :: nat

section \<open>The cache\<close>

text \<open>Lines 22 to 31, \<^verbatim>\<open>load_uid_cache\<close>, for any behaviour of \<^verbatim>\<open>json.load\<close>: it returns a
  value or raises an exception, and of the exceptions only \<^verbatim>\<open>json.JSONDecodeError\<close> is
  caught.\<close>

definition load_uid_cache_raising :: "(string \<Rightarrow> error + pyval) \<Rightarrow> string option \<Rightarrow> error + pyval" where
  "load_uid_cache_raising json_load file =
     (case file of
        None \<Rightarrow> Inr (PDict [])
      | Some content \<Rightarrow>
          (case json_load content of
             Inr v \<Rightarrow> Inr v
           | Inl e \<Rightarrow> if e = JSONDecodeError then Inr (PDict []) else Inl e))"

text \<open>The value it returns when \<^verbatim>\<open>json.load\<close> raises nothing but JSONDecodeError, as
  \<open>json_loads\<close> of the environment does: the rest of the run is stated for such a
  decoder.\<close>

definition load_uid_cache :: "env \<Rightarrow> string option \<Rightarrow> pyval" where
  "load_uid_cache env file =
     (case file of
        None \<Rightarrow> PDict []
      | Some content \<Rightarrow>
          (case json_loads env content of Some v \<Rightarrow> v | None \<Rightarrow> PDict []))"

definition save_uid_cache :: "env \<Rightarrow> pyval \<Rightarrow> state \<Rightarrow> error option \<times> state" where
  "save_uid_cache env cache s =
     (case write_error env (calls s) of
        Some (e, left) \<Rightarrow> (Some e, s\<lparr>cache_file := left, calls := Suc (calls s)\<rparr>)
      | None \<Rightarrow>
          (None, s\<lparr>cache_file := Some (json_dumps env cache),
                   events := events s @ [File_write (json_dumps env cache)],
                   calls := Suc (calls s)\<rparr>))"

text \<open>The loop \<^verbatim>\<open>for doc in docs: uid_cache[doc.id] = True\<close>.\<close>

fun hydrate :: "string list \<Rightarrow> pyval \<Rightarrow> error option \<times> pyval" where
  "hydrate [] cache = (None, cache)"
| "hydrate (doc_id # docs) cache =
     (case setitem cache doc_id (PBool True) of
        Inl e \<Rightarrow> (Some e, cache)
      | Inr cache' \<Rightarrow> hydrate docs cache')"

definition initialize_uid_cache :: "env \<Rightarrow> state \<Rightarrow> error option \<times> state" where
  "initialize_uid_cache env s =
     (let loaded = load_uid_cache env (cache_file s) in
      if \<not> truthy loaded then
        (let s1 = s\<lparr>events := events s @ [Db_stream]\<rparr> in
         case hydrate (fst (listing env)) loaded of
           (Some e, cache) \<Rightarrow> (Some e, s1\<lparr>uid_cache := cache\<rparr>)
         | (None, cache) \<Rightarrow>
             (case snd (listing env) of
                Some e \<Rightarrow> (Some e, s1\<lparr>uid_cache := cache\<rparr>)
              | None \<Rightarrow> save_uid_cache env cache (s1\<lparr>uid_cache := cache\<rparr>)))
      else (None, s\<lparr>uid_cache := loaded\<rparr>))"

definition recipe_exists :: "env \<Rightarrow> pyval \<Rightarrow> pyval \<Rightarrow> error + pyval" where
  "recipe_exists env cache recipe_id = get_default cache (py_str env recipe_id) (PBool False)"

text \<open>An identifier is marked present when the test of \<^verbatim>\<open>recipe_exists\<close> on its key is
  true.\<close>

definition marked :: "pyval \<Rightarrow> string \<Rightarrow> bool" where
  "marked cache k =
     (case get_default cache k (PBool False) of Inr v \<Rightarrow> truthy v | Inl e \<Rightarrow> False)"

text \<open>The keys of the cache.\<close>

fun cache_keys :: "pyval \<Rightarrow> pyval list" where
  "cache_keys (PDict kvs) = map fst kvs"
| "cache_keys v = []"

section \<open>Fetching\<close>

definition is_request_exception :: "error \<Rightarrow> bool" where
  "is_request_exception e = (e = RequestException \<or> e = HTTPError)"

text \<open>The body of the \<^verbatim>\<open>try\<close> in \<^verbatim>\<open>fetch_recipes\<close>.\<close>

definition fetch_try :: "env \<Rightarrow> error + pyval" where
  "fetch_try env =
     and_then (requests_get env) (\<lambda>response.
       case status_error response of
         Some e \<Rightarrow> Inl e
       | None \<Rightarrow> and_then (json_body response) (\<lambda>data. getitem data ''recipes''))"

definition fetch_recipes :: "env \<Rightarrow> state \<Rightarrow> (error + pyval) \<times> state" where
  "fetch_recipes env s =
     (case fetch_try env of
        Inl e \<Rightarrow>
          if is_request_exception e
          then (Inr (PList []), s\<lparr>events := events s @ [Print (Fetch_failed e)]\<rparr>)
          else (Inl e, s)
      | Inr recipes \<Rightarrow> (Inr recipes, s))"

section \<open>Building the document\<close>

text \<open>A loop whose body may raise: the first exception ends it.\<close>

fun for_each :: "('a \<Rightarrow> 'b \<Rightarrow> error + 'b) \<Rightarrow> 'a list \<Rightarrow> 'b \<Rightarrow> error + 'b" where
  "for_each f [] acc = Inr acc"
| "for_each f (x # xs) acc =
     (case f x acc of Inl e \<Rightarrow> Inl e | Inr acc' \<Rightarrow> for_each f xs acc')"

text \<open>\<^verbatim>\<open>equipment_set.add(x)\<close>, the set kept as the list of its elements.\<close>

definition set_add :: "pyval list \<Rightarrow> pyval \<Rightarrow> error + pyval list" where
  "set_add elems x =
     (if \<not> hashable x then Inl TypeError
      else if list_ex (\<lambda>y. py_eq y x) elems then Inr elems
      else Inr (elems @ [x]))"

definition extract_equipment :: "pyval \<Rightarrow> error + pyval" where
  "extract_equipment analyzed_instructions =
     and_then
       (and_then (iterate analyzed_instructions) (\<lambda>instructions.
          for_each (\<lambda>instruction equipment_set.
            and_then (get_default instruction ''steps'' (PList [])) (\<lambda>steps.
            and_then (iterate steps) (\<lambda>steps.
              for_each (\<lambda>step equipment_set.
                and_then (get_default step ''equipment'' (PList [])) (\<lambda>equipment.
                and_then (iterate equipment) (\<lambda>equipment.
                  for_each (\<lambda>equipment equipment_set.
                    and_then (getitem equipment ''name'') (set_add equipment_set))
                    equipment equipment_set)))
                steps equipment_set)))
            instructions []))
       (\<lambda>equipment_set. Inr (PList equipment_set))"

text \<open>The dictionary comprehension of \<^verbatim>\<open>ingredients_map\<close>: a later ingredient of the same
  name overwrites the earlier one.\<close>

definition ingredients_of :: "env \<Rightarrow> pyval \<Rightarrow> error + pyval" where
  "ingredients_of env recipe =
     and_then (getitem recipe ''extendedIngredients'') (\<lambda>ingredients.
     and_then (iterate ingredients) (\<lambda>ingredients.
     and_then
       (for_each (\<lambda>ingredient ingredients_map.
          and_then (getitem ingredient ''name'') (\<lambda>name.
          and_then (getitem ingredient ''amount'') (\<lambda>amount.
          and_then (getitem ingredient ''unit'') (\<lambda>unit.
            if hashable name
            then Inr (dict_store ingredients_map name
                       (PStr (py_str env amount @ '' '' @ py_str env unit)))
            else Inl TypeError))))
          ingredients [])
       (\<lambda>ingredients_map. Inr (PDict ingredients_map))))"

text \<open>\<^verbatim>\<open>extract_and_categorize(summary)\<close>: \<^verbatim>\<open>re.findall\<close> raises TypeError on a value that
  is not a string.\<close>

definition nutritional_of :: "pyval \<Rightarrow> error + (string \<times> string) list" where
  "nutritional_of summary =
     (case summary of PStr text \<Rightarrow> Inr (extract_and_categorize text) | _ \<Rightarrow> Inl TypeError)"

definition str_dict :: "(string \<times> string) list \<Rightarrow> pyval" where
  "str_dict d = PDict (map (\<lambda>(k, v). (PStr k, PStr v)) d)"

text \<open>Lines 108 to 150 of \<^verbatim>\<open>store_recipes\<close>: everything between the duplicate test and
  the call of \<^verbatim>\<open>doc_ref.set\<close>, in the order the script evaluates it. The result is the
  dictionary handed to \<^verbatim>\<open>set\<close>.\<close>

definition build_document :: "env \<Rightarrow> pyval \<Rightarrow> pyval \<Rightarrow> error + pyval" where
  "build_document env recipe recipe_id =
     and_then (ingredients_of env recipe) (\<lambda>ingredients_map.
     and_then (get_default recipe ''analyzedInstructions'' (PList [])) (\<lambda>analyzed.
     and_then (extract_equipment analyzed) (\<lambda>equipment_list.
     and_then (get_default recipe ''summary'' (PStr [])) (\<lambda>summary.
     and_then (nutritional_of summary) (\<lambda>nutritional_info.
     and_then (derive_calories (int_max_str_digits env) nutritional_info) (\<lambda>caloriesInt.
     and_then (case document_error env (py_str env recipe_id) of
                 Some e \<Rightarrow> Inl e | None \<Rightarrow> Inr ()) (\<lambda>doc_ref.
     and_then (getitem recipe ''title'') (\<lambda>title.
     and_then (getitem recipe ''instructions'') (\<lambda>instructions.
     and_then (get_default recipe ''vegetarian'' (PBool False)) (\<lambda>vegetarian.
     and_then (get_default recipe ''vegan'' (PBool False)) (\<lambda>vegan.
     and_then (get_default recipe ''glutenFree'' (PBool False)) (\<lambda>glutenFree.
     and_then (get_default recipe ''dairyFree'' (PBool False)) (\<lambda>dairyFree.
     and_then (get_default recipe ''healthScore'' (PInt 0)) (\<lambda>healthiness.
     and_then (get_default recipe ''readyInMinutes'' (PInt 0)) (\<lambda>time.
     and_then (get_default recipe ''servings'' (PInt 0)) (\<lambda>servings.
     and_then (get_default recipe ''image'' (PStr [])) (\<lambda>image.
     and_then (get_default recipe ''sourceUrl'' (PStr [])) (\<lambda>source.
     and_then (getitem recipe ''summary'') (\<lambda>summary'.
       Inr (PDict
         [(PStr ''title'', title),
          (PStr ''ingredients'', ingredients_map),
          (PStr ''instructions'',
             if truthy instructions then instructions
             else PStr ''No instructions provided''),
          (PStr ''vegetarian'', vegetarian),
          (PStr ''vegan'', vegan),
          (PStr ''glutenFree'', glutenFree),
          (PStr ''dairyFree'', dairyFree),
          (PStr ''healthiness'', healthiness),
          (PStr ''calories'', PInt caloriesInt),
          (PStr ''time'', time),
          (PStr ''servings'', servings),
          (PStr ''image'', image),
          (PStr ''source'', source),
          (PStr ''equipment'', equipment_list),
          (PStr ''summary'', summary'),
          (PStr ''nutritional'', str_dict nutritional_info),
          (PStr ''cost'',
             case map_of nutritional_info ''Cost per serving'' of
               Some v \<Rightarrow> PStr v | None \<Rightarrow> PInt 0)]))))))))))))))))))))"

section \<open>Storing\<close>

text \<open>The body of the \<^verbatim>\<open>try\<close> in \<^verbatim>\<open>store_recipes\<close>, for one recipe.\<close>

definition store_recipe :: "env \<Rightarrow> pyval \<Rightarrow> state \<Rightarrow> error option \<times> state" where
  "store_recipe env recipe s =
     (case getitem recipe ''id'' of
        Inl e \<Rightarrow> (Some e, s)
      | Inr recipe_id \<Rightarrow>
     (case recipe_exists env (uid_cache s) recipe_id of
        Inl e \<Rightarrow> (Some e, s)
      | Inr found \<Rightarrow>
          if \<not> truthy found then
            (case build_document env recipe recipe_id of
               Inl e \<Rightarrow> (Some e, s)
             | Inr doc \<Rightarrow>
            (case set_error env (calls s) of
               Some e \<Rightarrow> (Some e, s\<lparr>calls := Suc (calls s)\<rparr>)
             | None \<Rightarrow>
                 (let s1 = s\<lparr>events := events s @ [Db_set (py_str env recipe_id) doc],
                             calls := Suc (calls s)\<rparr>
                  in case getitem recipe ''title'' of
                       Inl e \<Rightarrow> (Some e, s1)
                     | Inr title \<Rightarrow>
                  (let s2 = s1\<lparr>events := events s1 @ [Print (Stored title)]\<rparr>
                   in case setitem (uid_cache s2) (py_str env recipe_id) (PBool True) of
                        Inl e \<Rightarrow> (Some e, s2)
                      | Inr cache \<Rightarrow>
                          save_uid_cache env cache
                            (s2\<lparr>uid_cache := cache,
                                events := events s2 @ [Cache_add (py_str env recipe_id)]\<rparr>)))))
          else
            (case getitem recipe ''title'' of
               Inl e \<Rightarrow> (Some e, s)
             | Inr title \<Rightarrow> (None, s\<lparr>events := events s @ [Print (Duplicate title)]\<rparr>))))"

text \<open>The \<^verbatim>\<open>try\<close> with its handler, \<^verbatim>\<open>except Exception as e\<close>, which prints
  \<^verbatim>\<open>recipe['title']\<close> and the exception.\<close>

definition try_recipe :: "env \<Rightarrow> pyval \<Rightarrow> state \<Rightarrow> error option \<times> state" where
  "try_recipe env recipe s =
     (case store_recipe env recipe s of
        (None, s') \<Rightarrow> (None, s')
      | (Some e, s') \<Rightarrow>
          (case getitem recipe ''title'' of
             Inr title \<Rightarrow> (None, s'\<lparr>events := events s' @ [Print (Store_failed title e)]\<rparr>)
           | Inl e' \<Rightarrow> (Some e', s')))"

fun run_all :: "('a \<Rightarrow> state \<Rightarrow> error option \<times> state) \<Rightarrow> 'a list \<Rightarrow> state \<Rightarrow> error option \<times> state" where
  "run_all f [] s = (None, s)"
| "run_all f (x # xs) s =
     (case f x s of (Some e, s') \<Rightarrow> (Some e, s') | (None, s') \<Rightarrow> run_all f xs s')"

definition store_recipes :: "env \<Rightarrow> pyval \<Rightarrow> state \<Rightarrow> error option \<times> state" where
  "store_recipes env recipes s =
     (case iterate recipes of
        Inl e \<Rightarrow> (Some e, s)
      | Inr rs \<Rightarrow> run_all (try_recipe env) rs s)"

text \<open>The script's \<^verbatim>\<open>__main__\<close>.\<close>

definition main :: "env \<Rightarrow> state \<Rightarrow> error option \<times> state" where
  "main env s =
     (case initialize_uid_cache env s of
        (Some e, s1) \<Rightarrow> (Some e, s1)
      | (None, s1) \<Rightarrow>
     (case fetch_recipes env s1 of
        (Inl e, s2) \<Rightarrow> (Some e, s2)
      | (Inr recipes, s2) \<Rightarrow>
          if truthy recipes then
            (case store_recipes env recipes s2 of
               (Some e, s3) \<Rightarrow> (Some e, s3)
             | (None, s3) \<Rightarrow> (None, s3\<lparr>events := events s3 @ [Print All_stored]\<rparr>))
          else (None, s2\<lparr>events := events s2 @ [Print Nothing_to_store]\<rparr>)))"

section \<open>Values for the examples\<close>

text \<open>A recipe as the API sends it, a recipe that is already stored, and a record without
  a title.\<close>

definition example_recipe :: pyval where
  "example_recipe =
     PDict
       [(PStr ''id'', PInt 716429),
        (PStr ''title'', PStr ''Pasta''),
        (PStr ''extendedIngredients'',
           PList [PDict [(PStr ''name'', PStr ''butter''), (PStr ''amount'', PInt 1),
                         (PStr ''unit'', PStr ''tbsp'')]]),
        (PStr ''instructions'', PStr []),
        (PStr ''analyzedInstructions'',
           PList [PDict [(PStr ''steps'',
             PList [PDict [(PStr ''equipment'', PList [PDict [(PStr ''name'', PStr ''pan'')]])]])]]),
        (PStr ''summary'', PStr ''<b>450 calories</b>'')]"

text \<open>The document built for it.\<close>

definition example_document :: pyval where
  "example_document =
     PDict
       [(PStr ''title'', PStr ''Pasta''),
        (PStr ''ingredients'', PDict [(PStr ''butter'', PStr ''1 tbsp'')]),
        (PStr ''instructions'', PStr ''No instructions provided''),
        (PStr ''vegetarian'', PBool False),
        (PStr ''vegan'', PBool False),
        (PStr ''glutenFree'', PBool False),
        (PStr ''dairyFree'', PBool False),
        (PStr ''healthiness'', PInt 0),
        (PStr ''calories'', PInt 450),
        (PStr ''time'', PInt 0),
        (PStr ''servings'', PInt 0),
        (PStr ''image'', PStr []),
        (PStr ''source'', PStr []),
        (PStr ''equipment'', PList [PStr ''pan'']),
        (PStr ''summary'', PStr ''<b>450 calories</b>''),
        (PStr ''nutritional'', PDict [(PStr ''Calories'', PStr ''450 calories'')]),
        (PStr ''cost'', PInt 0)]"

definition example_duplicate :: pyval where
  "example_duplicate = PDict [(PStr ''id'', PInt 100), (PStr ''title'', PStr ''Soup'')]"

definition example_untitled :: pyval where
  "example_untitled = PDict [(PStr ''id'', PInt 7)]"

text \<open>The cache before and after the recipe is added, and the texts \<^verbatim>\<open>json\<close> writes and
  reads for them.\<close>

definition example_cache :: pyval where
  "example_cache = PDict [(PStr ''100'', PBool True)]"

definition example_cache' :: pyval where
  "example_cache' = PDict [(PStr ''100'', PBool True), (PStr ''716429'', PBool True)]"

definition example_text :: string where
  \<open>example_text = ''{"100": true}''\<close>

definition example_text' :: string where
  \<open>example_text' = ''{"100": true, "716429": true}''\<close>

definition example_dumps :: "pyval \<Rightarrow> string" where
  "example_dumps v =
     (if v = example_cache then example_text
      else if v = example_cache' then example_text'
      else ''{}'')"

definition example_loads :: "string \<Rightarrow> pyval option" where
  "example_loads t =
     (if t = example_text then Some example_cache
      else if t = example_text' then Some example_cache'
      else if t = ''{}'' then Some (PDict [])
      else None)"

text \<open>A malformed text, a hundred thousand opening brackets, on which \<^verbatim>\<open>json.load\<close> raises
  RecursionError, and a decoder that does so.\<close>

definition deep_text :: string where
  "deep_text = replicate 100000 (CHR ''['')"

definition example_json_load :: "string \<Rightarrow> error + pyval" where
  "example_json_load t =
     (if t = deep_text then Inl RecursionError
      else case example_loads t of Some v \<Rightarrow> Inr v | None \<Rightarrow> Inl JSONDecodeError)"

text \<open>An environment in which nothing fails: the store lists one document, the API
  answers with the two recipes. No float, list or dictionary is printed in the examples.\<close>

definition example_env :: env where
  "example_env =
     \<lparr>repr_of = (\<lambda>v. []),
      int_max_str_digits = 4300,
      json_loads = example_loads,
      json_dumps = example_dumps,
      listing = ([''100''], None),
      requests_get =
        Inr \<lparr>status_error = None,
             json_body = Inr (PDict [(PStr ''recipes'', PList [example_duplicate, example_recipe])])\<rparr>,
      document_error = (\<lambda>k. None),
      set_error = (\<lambda>n. None),
      write_error = (\<lambda>n. None)\<rparr>"

text \<open>The state in which a run starts with the cache loaded.\<close>

definition example_state :: state where
  "example_state =
     \<lparr>uid_cache = example_cache, cache_file = Some example_text, events = [], calls = 0\<rparr>"

section \<open>Nutrition categorization: the fragments and their categories\<close>

lemma categorize_step:
  "map_of (categorize categories tag data) c =
     (if first_category tag = Some c then Some (clean tag) else map_of data c)"
  by (simp add: categories_def first_category_def update_conv')

lemma foldl_categorize:
  "map_of (foldl (\<lambda>data tag. categorize categories tag data) data tags) c =
     (case filter (\<lambda>t. first_category t = Some c) tags of
        [] \<Rightarrow> map_of data c
      | t # ts \<Rightarrow> Some (clean (last (t # ts))))"
proof (induction tags arbitrary: data)
  case Nil
  then show ?case by simp
next
  case (Cons tag tags)
  show ?case
    by (simp add: Cons.IH categorize_step split: list.splits)
qed

lemma lazy_group_plain:
  "CHR ''<'' \<notin> set frag \<Longrightarrow> CHR 0x0A \<notin> set frag \<Longrightarrow>
   lazy_group (frag @ ''</b>'' @ r) = Some (frag, r)"
  by (induction frag) auto

lemma findall_b_skip:
  "CHR ''<'' \<notin> set pre \<Longrightarrow> findall_b (pre @ s) = findall_b s"
  by (induction pre) auto

lemma findall_b_fragment:
  "CHR ''<'' \<notin> set pre \<Longrightarrow> CHR ''<'' \<notin> set frag \<Longrightarrow> CHR 0x0A \<notin> set frag \<Longrightarrow>
   findall_b (pre @ ''<b>'' @ frag @ ''</b>'' @ r) = frag # findall_b r"
  using lazy_group_plain [of frag r] by (simp add: findall_b_skip)

text \<open>
  Claim C3. For every summary text and every category, the value that nutrition
  categorization stores under the category is the cleaned text of the last fragment,
  in the order \<^verbatim>\<open>re.findall\<close> extracts them, whose first matching category (in the order
  Cost per serving, Protein, Fat, Calories) is that category, and nothing is stored
  when there is no such fragment: a fragment goes to one category at most, and a later
  fragment of a category overwrites an earlier one. The fragments come in the order
  they stand in the text: a bold-wrapped fragment without \<^verbatim>\<open><\<close> and line feed that follows
  a text without \<^verbatim>\<open><\<close> is the first one extracted, and the extraction goes on behind
  its closing tag.
\<close>

theorem nutrition_categorization:
  "map_of (extract_and_categorize text) c =
     (case filter (\<lambda>tag. first_category tag = Some c) (findall_b text) of
        [] \<Rightarrow> None
      | t # ts \<Rightarrow> Some (clean (last (t # ts))))
   \<and> (CHR ''<'' \<notin> set pre \<and> CHR ''<'' \<notin> set frag \<and> CHR 0x0A \<notin> set frag \<longrightarrow>
        findall_b (pre @ ''<b>'' @ frag @ ''</b>'' @ r) = frag # findall_b r)"
proof
  show "map_of (extract_and_categorize text) c =
     (case filter (\<lambda>tag. first_category tag = Some c) (findall_b text) of
        [] \<Rightarrow> None
      | t # ts \<Rightarrow> Some (clean (last (t # ts))))"
    unfolding extract_and_categorize_def foldl_categorize
    by (simp split: list.splits)
next
  show "CHR ''<'' \<notin> set pre \<and> CHR ''<'' \<notin> set frag \<and> CHR 0x0A \<notin> set frag \<longrightarrow>
        findall_b (pre @ ''<b>'' @ frag @ ''</b>'' @ r) = frag # findall_b r"
    using findall_b_fragment [of pre frag r] by blast
qed

theorem nutrition_categorization_witness:
  "map_of (extract_and_categorize
      ''Has <b>450 calories</b>, <b>12g of protein</b>, <b>$1.20</b>, <b>9 calories!</b>'')
      ''Calories'' = Some ''9 calories''
   \<and> findall_b (''Has '' @ ''<b>'' @ ''450 calories'' @ ''</b>'' @ '', more'')
       = [''450 calories'']"
  using nutrition_categorization
    [of "''Has <b>450 calories</b>, <b>12g of protein</b>, <b>$1.20</b>, <b>9 calories!</b>''"
        "''Calories''" "''Has ''" "''450 calories''" "'', more''"]
  by (simp add: first_category_def clean_def is_digit_def is_letter_def is_space_def)

text \<open>The example of the specification.\<close>

lemma categorization_example:
  "extract_and_categorize ''It has <b>450 calories</b>, <b>12g of protein</b>.''
     = [(''Calories'', ''450 calories''), (''Protein'', ''12g of protein'')]"
  by (simp add: extract_and_categorize_def categories_def clean_def is_digit_def is_letter_def
      is_space_def)

section \<open>The calorie value\<close>

text \<open>
  Claim C1, as the code has it. When the Calories category is absent the derived value
  is 0, and for the entry \<^verbatim>\<open>450 calories\<close> it is 450, whatever the limit of the
  interpreter; when the entry holds no digit the conversion of the empty text raises
  ValueError.
\<close>

theorem derive_calories_cases:
  "(map_of info ''Calories'' = None \<longrightarrow> derive_calories m info = Inr 0)
   \<and> (map_of info ''Calories'' = Some s \<and> filter is_digit s = [] \<longrightarrow>
        derive_calories m info = Inl ValueError)
   \<and> derive_calories m [(''Calories'', ''450 calories'')] = Inr 450"
proof -
  have "derive_calories m [(''Calories'', ''450 calories'')] = Inr 450"
    by (simp add: derive_calories_def int_of_digits_def is_digit_def digit_of_def)
  then show ?thesis
    by (simp add: derive_calories_def int_of_digits_def)
qed

theorem derive_calories_cases_witness:
  "derive_calories 4300 [(''Protein'', ''12g of protein'')] = Inr 0
   \<and> derive_calories 4300 [(''Calories'', '' calories'')] = Inl ValueError
   \<and> derive_calories 4300 [(''Calories'', ''450 calories'')] = Inr 450"
  using derive_calories_cases [of "[(''Protein'', ''12g of protein'')]" 4300 "''x''"]
    derive_calories_cases [of "[(''Calories'', '' calories'')]" 4300 "'' calories''"]
  by (simp add: is_digit_def)

text \<open>The claim as the specification states it fails: a Calories entry without a digit
  does not yield 0.\<close>

theorem derive_calories_no_digit_counterexample:
  "derive_calories 4300 [(''Calories'', ''calories'')] = Inl ValueError
   \<and> derive_calories 4300 [(''Calories'', ''calories'')] \<noteq> Inr 0"
  by (simp add: derive_calories_def int_of_digits_def is_digit_def)

section \<open>The cache only grows\<close>

lemma py_eq_PStr [simp]: "py_eq k (PStr a) = (k = PStr a)"
  by (cases k rule: num_of.cases) (auto simp: py_eq_def)

lemma py_eq_PStr_left [simp]: "py_eq (PStr a) k = (k = PStr a)"
  by (cases k rule: num_of.cases) (auto simp: py_eq_def)

lemma dict_lookup_store_same [simp]:
  "dict_lookup (dict_store kvs (PStr k) v) (PStr k) = Some v"
  by (induction kvs) auto

lemma dict_lookup_store_other [simp]:
  "k' \<noteq> k \<Longrightarrow> dict_lookup (dict_store kvs (PStr k) v) (PStr k') = dict_lookup kvs (PStr k')"
  by (induction kvs) auto

lemma keys_dict_store:
  "fst ` set (dict_store kvs (PStr k) v) = insert (PStr k) (fst ` set kvs)"
proof (induction kvs)
  case Nil
  then show ?case by simp
next
  case (Cons p kvs)
  obtain a b where p: "p = (a, b)" by (cases p)
  show ?case
  proof (cases "a = PStr k")
    case True
    with p show ?thesis by auto
  next
    case False
    with p Cons.IH show ?thesis by (simp add: insert_commute)
  qed
qed

lemma and_then_Inr [simp]:
  "(and_then m f = Inr y) = (\<exists>x. m = Inr x \<and> f x = Inr y)"
  by (cases m) (simp_all add: and_then_def)

lemma marked_setitem:
  "setitem cache k (PBool True) = Inr cache' \<Longrightarrow> marked cache' k"
  by (cases cache) (auto simp: marked_def)

lemma marked_setitem_mono:
  "setitem cache k v = Inr cache' \<Longrightarrow> truthy v \<Longrightarrow> marked cache k' \<Longrightarrow> marked cache' k'"
  by (cases cache; cases "k' = k") (auto simp: marked_def split: option.splits)

lemma keys_setitem:
  assumes "setitem cache k v = Inr cache'"
  shows "set (cache_keys cache') = insert (PStr k) (set (cache_keys cache))"
proof (cases cache)
  case (PDict kvs)
  with assms have "cache' = PDict (dict_store kvs (PStr k) v)" by simp
  with PDict keys_dict_store [of kvs k v] show ?thesis by simp
qed (use assms in simp_all)

lemma hydrate_marked:
  "marked cache k \<Longrightarrow> marked (snd (hydrate docs cache)) k"
proof (induction docs arbitrary: cache)
  case Nil
  then show ?case by simp
next
  case (Cons d docs)
  show ?case
  proof (cases "setitem cache d (PBool True)")
    case (Inl e)
    with Cons.prems show ?thesis by simp
  next
    case (Inr c')
    from marked_setitem_mono [OF Inr _ Cons.prems] have "marked c' k" by simp
    with Cons.IH Inr show ?thesis by simp
  qed
qed

lemma hydrate_keys:
  "set (cache_keys cache) \<subseteq> set (cache_keys (snd (hydrate docs cache)))"
proof (induction docs arbitrary: cache)
  case Nil
  then show ?case by simp
next
  case (Cons d docs)
  show ?case
  proof (cases "setitem cache d (PBool True)")
    case (Inl e)
    then show ?thesis by simp
  next
    case (Inr c')
    with Cons.IH [of c'] keys_setitem [OF Inr] show ?thesis by auto
  qed
qed

lemma save_uid_cache_cache [simp]:
  "uid_cache (snd (save_uid_cache env c s)) = uid_cache s"
  by (simp add: save_uid_cache_def split: option.splits prod.splits)

lemma store_recipe_cache:
  "uid_cache (snd (store_recipe env recipe s)) = uid_cache s \<or>
   (\<exists>k. setitem (uid_cache s) k (PBool True) = Inr (uid_cache (snd (store_recipe env recipe s))))"
  by (auto simp: store_recipe_def Let_def split: sum.splits option.splits)


lemma store_recipe_marked:
  "marked (uid_cache s) k \<Longrightarrow> marked (uid_cache (snd (store_recipe env recipe s))) k"
  using store_recipe_cache [of env recipe s] marked_setitem_mono [of "uid_cache s" _ "PBool True"]
  by auto

lemma store_recipe_keys:
  "set (cache_keys (uid_cache s)) \<subseteq> set (cache_keys (uid_cache (snd (store_recipe env recipe s))))"
  using store_recipe_cache [of env recipe s] keys_setitem [of "uid_cache s"]
  by auto

lemma try_recipe_cache:
  "uid_cache (snd (try_recipe env recipe s)) = uid_cache (snd (store_recipe env recipe s))"
  by (simp add: try_recipe_def split: prod.splits option.splits sum.splits)

lemma run_all_preserves:
  assumes "\<And>x s. P s \<Longrightarrow> P (snd (f x s))" and "P s"
  shows "P (snd (run_all f xs s))"
  using assms(2)
proof (induction xs arbitrary: s)
  case Nil
  then show ?case by simp
next
  case (Cons x xs)
  from assms(1) [OF Cons.prems, of x] have step: "P (snd (f x s))" .
  show ?case
  proof (cases "f x s")
    case (Pair r s')
    with step Cons.IH [of s'] show ?thesis by (cases r) simp_all
  qed
qed

lemma store_recipes_marked:
  "marked (uid_cache s) k \<Longrightarrow> marked (uid_cache (snd (store_recipes env recipes s))) k"
proof -
  assume m: "marked (uid_cache s) k"
  have "marked (uid_cache (snd (run_all (try_recipe env) rs s))) k" for rs
    by (rule run_all_preserves [where P = "\<lambda>s. marked (uid_cache s) k"])
       (simp_all add: try_recipe_cache store_recipe_marked m)
  with m show ?thesis
    by (simp add: store_recipes_def split: sum.splits)
qed

lemma store_recipes_keys:
  "set (cache_keys (uid_cache s)) \<subseteq> set (cache_keys (uid_cache (snd (store_recipes env recipes s))))"
proof -
  have "set (cache_keys (uid_cache s)) \<subseteq> set (cache_keys (uid_cache (snd (run_all (try_recipe env) rs s))))" for rs
  proof (rule run_all_preserves [where P = "\<lambda>t. set (cache_keys (uid_cache s)) \<subseteq> set (cache_keys (uid_cache t))"])
    fix x and t :: state
    assume "set (cache_keys (uid_cache s)) \<subseteq> set (cache_keys (uid_cache t))"
    with store_recipe_keys [of t env x]
    show "set (cache_keys (uid_cache s)) \<subseteq> set (cache_keys (uid_cache (snd (try_recipe env x t))))"
      unfolding try_recipe_cache by (rule order_trans [rotated])
  qed simp
  then show ?thesis
    by (simp add: store_recipes_def split: sum.splits)
qed

lemma fetch_recipes_cache [simp]:
  "uid_cache (snd (fetch_recipes env s)) = uid_cache s"
  by (simp add: fetch_recipes_def split: sum.splits)

lemma initialize_cache:
  "uid_cache (snd (initialize_uid_cache env s)) =
     (if truthy (load_uid_cache env (cache_file s)) then load_uid_cache env (cache_file s)
      else snd (hydrate (fst (listing env)) (load_uid_cache env (cache_file s))))"
  by (simp add: initialize_uid_cache_def Let_def split: prod.splits option.splits)

lemma main_cache:
  "\<exists>s1 recipes. uid_cache s1 = uid_cache (snd (initialize_uid_cache env s)) \<and>
     (uid_cache (snd (main env s)) = uid_cache s1 \<or>
      uid_cache (snd (main env s)) = uid_cache (snd (store_recipes env recipes s1)))"
proof (cases "initialize_uid_cache env s")
  case (Pair r s1)
  show ?thesis
  proof (cases r)
    case (Some e)
    with Pair show ?thesis by (auto simp: main_def)
  next
    case None
    show ?thesis
    proof (cases "fetch_recipes env s1")
      case (Pair r2 s2)
      with fetch_recipes_cache [of env s1] have c2: "uid_cache s2 = uid_cache s1" by simp
      show ?thesis
      proof (cases r2)
        case (Inl e)
        with Pair None \<open>initialize_uid_cache env s = (r, s1)\<close> c2 show ?thesis
          by (auto simp: main_def)
      next
        case (Inr recipes)
        have "uid_cache (snd (main env s)) = uid_cache s2 \<or>
              uid_cache (snd (main env s)) = uid_cache (snd (store_recipes env recipes s2))"
          using Pair None \<open>initialize_uid_cache env s = (r, s1)\<close> Inr
          by (auto simp: main_def split: prod.splits option.splits)
        with c2 \<open>initialize_uid_cache env s = (r, s1)\<close> show ?thesis
          by (intro exI [of _ s2] exI [of _ recipes]) simp
      qed
    qed
  qed
qed

lemma run_marked:
  assumes "marked (load_uid_cache env (cache_file s)) k"
  shows "marked (uid_cache (snd (main env s))) k"
proof -
  from assms have "marked (uid_cache (snd (initialize_uid_cache env s))) k"
    by (simp add: initialize_cache hydrate_marked)
  with main_cache [of env s] store_recipes_marked show ?thesis
    by metis
qed

text \<open>
  Claim C9. Within a run no identifier leaves the cache. An identifier that is marked
  present stays marked, and the set of keys only grows, through the hydration loop and
  through \<^verbatim>\<open>store_recipes\<close> (also when one of them ends with an exception); and an
  identifier marked present in the cache as loaded is still marked when the run ends.
\<close>

theorem cache_only_grows:
  "(marked cache k \<longrightarrow> marked (snd (hydrate docs cache)) k)
   \<and> set (cache_keys cache) \<subseteq> set (cache_keys (snd (hydrate docs cache)))
   \<and> (marked (uid_cache s) k \<longrightarrow> marked (uid_cache (snd (store_recipes env recipes s))) k)
   \<and> set (cache_keys (uid_cache s))
       \<subseteq> set (cache_keys (uid_cache (snd (store_recipes env recipes s))))
   \<and> (marked (load_uid_cache env (cache_file s)) k \<longrightarrow> marked (uid_cache (snd (main env s))) k)"
  using hydrate_marked [of cache k docs] hydrate_keys [of cache docs]
    store_recipes_marked [of s k env recipes] store_recipes_keys [of s env recipes]
    run_marked [of env s k]
  by blast

theorem cache_only_grows_witness:
  "marked example_cache ''100''
   \<and> marked (snd (hydrate [''200'', ''300''] example_cache)) ''100''
   \<and> marked (uid_cache (snd (store_recipes example_env (PList [example_recipe]) example_state))) ''100''
   \<and> marked (uid_cache (snd (main example_env example_state))) ''100''"
  using cache_only_grows [of example_cache "''100''" "[''200'', ''300'']" example_state
      example_env "PList [example_recipe]"]
  by (simp add: marked_def example_cache_def example_state_def load_uid_cache_def
      example_env_def example_loads_def example_text_def)

section \<open>Membership after an addition\<close>

lemma recipe_exists_after_add:
  "setitem cache (py_str env recipe_id) (PBool True) = Inr cache' \<Longrightarrow>
   recipe_exists env cache' recipe_id = Inr (PBool True)"
  by (cases cache) (auto simp: recipe_exists_def)

lemma dict_store_not_empty [simp]: "dict_store kvs k v \<noteq> []"
  by (cases kvs) (auto split: if_splits)

lemma truthy_after_add:
  "setitem cache k v = Inr cache' \<Longrightarrow> truthy cache'"
  by (cases cache) auto

lemma save_uid_cache_file:
  "save_uid_cache env cache s = (None, s') \<Longrightarrow> cache_file s' = Some (json_dumps env cache)"
  by (auto simp: save_uid_cache_def split: option.splits prod.splits)

lemma initialize_loaded:
  "truthy (load_uid_cache env (cache_file s)) \<Longrightarrow>
   initialize_uid_cache env s = (None, s\<lparr>uid_cache := load_uid_cache env (cache_file s)\<rparr>)"
  by (simp add: initialize_uid_cache_def)

lemma py_str_cong:
  "repr_of env' = repr_of env \<Longrightarrow> py_str env' v = py_str env v"
  by (simp add: py_str_def split: pyval.splits)

text \<open>
  Claim C8. Once an identifier is added to the cache (\<^verbatim>\<open>uid_cache[str(recipe_id)] = True\<close>),
  \<^verbatim>\<open>recipe_exists\<close> returns True for it; it is still marked present after any further
  batch of the same run; and when the cache is saved and \<^verbatim>\<open>json\<close> reads back from the
  written text the cache it was given, a later run, whatever its store and API do,
  initializes its cache from the file without hydration and \<^verbatim>\<open>recipe_exists\<close> returns True
  there as well.
\<close>

theorem add_then_contains:
  "setitem cache (py_str env recipe_id) (PBool True) = Inr cache' \<longrightarrow>
     recipe_exists env cache' recipe_id = Inr (PBool True)
     \<and> marked (uid_cache (snd (store_recipes env recipes (s\<lparr>uid_cache := cache'\<rparr>))))
          (py_str env recipe_id)
     \<and> (save_uid_cache env cache' s = (None, s')
         \<and> cache_file t = cache_file s'
         \<and> json_loads env' (json_dumps env cache') = Some cache'
         \<and> repr_of env' = repr_of env \<longrightarrow>
           initialize_uid_cache env' t = (None, t\<lparr>uid_cache := cache'\<rparr>)
           \<and> recipe_exists env' (uid_cache (snd (initialize_uid_cache env' t))) recipe_id
               = Inr (PBool True))"
proof (intro impI conjI)
  assume add: "setitem cache (py_str env recipe_id) (PBool True) = Inr cache'"
  then show now: "recipe_exists env cache' recipe_id = Inr (PBool True)"
    by (rule recipe_exists_after_add)
  from add have "marked cache' (py_str env recipe_id)"
    by (rule marked_setitem)
  then show "marked (uid_cache (snd (store_recipes env recipes (s\<lparr>uid_cache := cache'\<rparr>))))
      (py_str env recipe_id)"
    using store_recipes_marked [of "s\<lparr>uid_cache := cache'\<rparr>"] by simp
  assume later: "save_uid_cache env cache' s = (None, s')
         \<and> cache_file t = cache_file s'
         \<and> json_loads env' (json_dumps env cache') = Some cache'
         \<and> repr_of env' = repr_of env"
  then have on_disk: "cache_file t = Some (json_dumps env cache')"
    using save_uid_cache_file [of env cache' s s'] by simp
  from later have "json_loads env' (json_dumps env cache') = Some cache'" by simp
  with on_disk have loaded: "load_uid_cache env' (cache_file t) = cache'"
    by (simp add: load_uid_cache_def)
  with truthy_after_add [OF add] initialize_loaded [of env' t]
  show init: "initialize_uid_cache env' t = (None, t\<lparr>uid_cache := cache'\<rparr>)"
    by simp
  from later have "py_str env' recipe_id = py_str env recipe_id"
    using py_str_cong [of env' env recipe_id] by simp
  with now init
  show "recipe_exists env' (uid_cache (snd (initialize_uid_cache env' t))) recipe_id
      = Inr (PBool True)"
    by (simp add: recipe_exists_def)
qed

theorem add_then_contains_witness:
  "recipe_exists example_env example_cache' (PInt 716429) = Inr (PBool True)
   \<and> recipe_exists example_env
        (uid_cache (snd (initialize_uid_cache example_env
           (snd (save_uid_cache example_env example_cache' example_state)))))
        (PInt 716429) = Inr (PBool True)"
proof -
  have key: "py_str example_env (PInt 716429) = ''716429''"
    by (simp add: py_str_def str_int_def str_nat.simps)
  have add: "setitem example_cache (py_str example_env (PInt 716429)) (PBool True)
      = Inr example_cache'"
    unfolding key by (simp add: example_cache_def example_cache'_def)
  have saved: "save_uid_cache example_env example_cache' example_state
      = (None, snd (save_uid_cache example_env example_cache' example_state))"
    by (simp add: save_uid_cache_def example_env_def)
  have loads: "json_loads example_env (json_dumps example_env example_cache') = Some example_cache'"
    by (simp add: example_env_def example_dumps_def example_loads_def example_cache_def
        example_cache'_def example_text_def example_text'_def)
  from add_then_contains [of example_cache example_env "PInt 716429" example_cache'
      "PList []" example_state "snd (save_uid_cache example_env example_cache' example_state)"
      "snd (save_uid_cache example_env example_cache' example_state)" example_env]
    add saved loads
  show ?thesis by simp
qed

section \<open>Loading the cache\<close>

lemma load_uid_cache_raising_cases:
  "load_uid_cache_raising json_load None = Inr (PDict [])"
  "json_load content = Inr v \<Longrightarrow> load_uid_cache_raising json_load (Some content) = Inr v"
  "json_load content = Inl JSONDecodeError \<Longrightarrow>
   load_uid_cache_raising json_load (Some content) = Inr (PDict [])"
  "json_load content = Inl e \<Longrightarrow> e \<noteq> JSONDecodeError \<Longrightarrow>
   load_uid_cache_raising json_load (Some content) = Inl e"
  by (simp_all add: load_uid_cache_raising_def)

lemma load_uid_cache_of_raising:
  "load_uid_cache_raising
     (\<lambda>content. case json_loads env content of Some v \<Rightarrow> Inr v | None \<Rightarrow> Inl JSONDecodeError)
     file = Inr (load_uid_cache env file)"
  by (simp add: load_uid_cache_raising_def load_uid_cache_def split: option.splits)

text \<open>
  Claim C5, on a malformed content that is deeply nested. \<^verbatim>\<open>json.load\<close> raises
  RecursionError on the text of a hundred thousand opening brackets; the handler of
  \<^verbatim>\<open>load_uid_cache\<close> catches JSONDecodeError only, so the exception leaves the function
  and no empty dictionary is returned.
\<close>

theorem deep_content_raises:
  "load_uid_cache_raising example_json_load (Some deep_text) = Inl RecursionError
   \<and> load_uid_cache_raising example_json_load (Some deep_text) \<noteq> Inr (PDict [])"
  by (simp add: load_uid_cache_raising_def example_json_load_def)

section \<open>Hydration\<close>

lemma get_default_setitem_True:
  "setitem cache k' (PBool True) = Inr cache' \<Longrightarrow>
   get_default cache k (PBool False) = Inr (PBool True) \<Longrightarrow>
   get_default cache' k (PBool False) = Inr (PBool True)"
  by (cases cache; cases "k = k'") auto

lemma get_default_after_setitem:
  "setitem cache k v = Inr cache' \<Longrightarrow> get_default cache' k d = Inr v"
  by (cases cache) auto

lemma hydrate_ok_keys:
  "hydrate docs cache = (None, cache') \<Longrightarrow>
   set (cache_keys cache') = set (cache_keys cache) \<union> PStr ` set docs"
proof (induction docs arbitrary: cache)
  case Nil
  then show ?case by simp
next
  case (Cons d docs)
  from Cons.prems obtain c where c: "setitem cache d (PBool True) = Inr c"
    and rest: "hydrate docs c = (None, cache')"
    by (auto split: sum.splits)
  from Cons.IH [OF rest] keys_setitem [OF c] show ?case by auto
qed

lemma hydrate_preserves_True:
  "hydrate docs cache = (None, cache') \<Longrightarrow>
   get_default cache k (PBool False) = Inr (PBool True) \<Longrightarrow>
   get_default cache' k (PBool False) = Inr (PBool True)"
proof (induction docs arbitrary: cache)
  case Nil
  then show ?case by simp
next
  case (Cons d docs)
  from Cons.prems(1) obtain c where c: "setitem cache d (PBool True) = Inr c"
    and rest: "hydrate docs c = (None, cache')"
    by (auto split: sum.splits)
  from get_default_setitem_True [OF c Cons.prems(2)] Cons.IH [OF rest] show ?case by simp
qed

lemma hydrate_ok_values:
  "hydrate docs cache = (None, cache') \<Longrightarrow> k \<in> set docs \<Longrightarrow>
   get_default cache' k (PBool False) = Inr (PBool True)"
proof (induction docs arbitrary: cache)
  case Nil
  then show ?case by simp
next
  case (Cons d docs)
  from Cons.prems(1) obtain c where c: "setitem cache d (PBool True) = Inr c"
    and rest: "hydrate docs c = (None, cache')"
    by (auto split: sum.splits)
  show ?case
  proof (cases "k = d")
    case True
    with get_default_after_setitem [OF c] hydrate_preserves_True [OF rest] show ?thesis by simp
  next
    case False
    with Cons.prems(2) Cons.IH [OF rest] show ?thesis by simp
  qed
qed

lemma falsy_keys: "\<not> truthy cache \<Longrightarrow> cache_keys cache = []"
  by (cases cache) auto

lemma initialize_hydrated:
  assumes "\<not> truthy (load_uid_cache env (cache_file s))"
    and "initialize_uid_cache env s = (None, s')"
  shows "hydrate (fst (listing env)) (load_uid_cache env (cache_file s)) = (None, uid_cache s')"
    and "cache_file s' = Some (json_dumps env (uid_cache s'))"
  using assms
  by (auto simp: initialize_uid_cache_def Let_def save_uid_cache_def
      split: prod.splits option.splits)

lemma initialize_events:
  "events (snd (initialize_uid_cache env s)) =
     (if truthy (load_uid_cache env (cache_file s)) then events s
      else events s @ Db_stream # drop (Suc (length (events s))) (events (snd (initialize_uid_cache env s))))"
  by (auto simp: initialize_uid_cache_def Let_def save_uid_cache_def
      split: prod.splits option.splits)

text \<open>
  Claim C6. \<^verbatim>\<open>initialize_uid_cache\<close> lists the documents of the remote store exactly when
  the loaded cache is empty (false as a truth value; an empty dictionary, for a
  dictionary). When it does and returns, the cache file holds the text of the cache, and
  the keys of that cache are exactly the identifiers the listing returned, each marked
  True.
\<close>

theorem hydration_when_empty:
  "((\<exists>rest. events (snd (initialize_uid_cache env s)) = events s @ Db_stream # rest)
      = (\<not> truthy (load_uid_cache env (cache_file s))))
   \<and> (\<not> truthy (load_uid_cache env (cache_file s)) \<and> initialize_uid_cache env s = (None, s') \<longrightarrow>
        cache_file s' = Some (json_dumps env (uid_cache s'))
        \<and> set (cache_keys (uid_cache s')) = PStr ` set (fst (listing env))
        \<and> (\<forall>k \<in> set (fst (listing env)).
              get_default (uid_cache s') k (PBool False) = Inr (PBool True)))"
proof (intro conjI impI)
  show "(\<exists>rest. events (snd (initialize_uid_cache env s)) = events s @ Db_stream # rest)
      = (\<not> truthy (load_uid_cache env (cache_file s)))"
  proof (cases "truthy (load_uid_cache env (cache_file s))")
    case True
    then show ?thesis by (simp add: initialize_uid_cache_def)
  next
    case False
    with initialize_events [of env s] show ?thesis by metis
  qed
next
  assume a: "\<not> truthy (load_uid_cache env (cache_file s)) \<and> initialize_uid_cache env s = (None, s')"
  from a initialize_hydrated [of env s s']
  have h: "hydrate (fst (listing env)) (load_uid_cache env (cache_file s)) = (None, uid_cache s')"
    and f: "cache_file s' = Some (json_dumps env (uid_cache s'))"
    by simp_all
  from f show "cache_file s' = Some (json_dumps env (uid_cache s'))" .
  from a hydrate_ok_keys [OF h] falsy_keys
  show "set (cache_keys (uid_cache s')) = PStr ` set (fst (listing env))" by simp
  from hydrate_ok_values [OF h]
  show "\<forall>k \<in> set (fst (listing env)).
      get_default (uid_cache s') k (PBool False) = Inr (PBool True)" by blast
qed

theorem hydration_when_empty_witness:
  "\<not> truthy (load_uid_cache example_env None)
   \<and> cache_file (snd (initialize_uid_cache example_env (example_state\<lparr>cache_file := None\<rparr>)))
       = Some example_text
   \<and> set (cache_keys (uid_cache (snd (initialize_uid_cache example_env
        (example_state\<lparr>cache_file := None\<rparr>))))) = {PStr ''100''}
   \<and> (\<exists>rest. events (snd (initialize_uid_cache example_env (example_state\<lparr>cache_file := None\<rparr>)))
         = events (example_state\<lparr>cache_file := None\<rparr>) @ Db_stream # rest)"
proof -
  have init: "initialize_uid_cache example_env (example_state\<lparr>cache_file := None\<rparr>)
      = (None, snd (initialize_uid_cache example_env (example_state\<lparr>cache_file := None\<rparr>)))"
    by (simp add: initialize_uid_cache_def load_uid_cache_def example_env_def example_state_def
        save_uid_cache_def)
  have cache: "uid_cache (snd (initialize_uid_cache example_env (example_state\<lparr>cache_file := None\<rparr>)))
      = example_cache"
    by (simp add: initialize_uid_cache_def load_uid_cache_def example_env_def example_state_def
        save_uid_cache_def example_cache_def)
  have empty: "\<not> truthy (load_uid_cache example_env (cache_file (example_state\<lparr>cache_file := None\<rparr>)))"
    by (simp add: load_uid_cache_def)
  from hydration_when_empty [of example_env "example_state\<lparr>cache_file := None\<rparr>"
      "snd (initialize_uid_cache example_env (example_state\<lparr>cache_file := None\<rparr>))"]
    init empty
  show ?thesis
    unfolding cache by (simp add: example_env_def example_dumps_def)
qed

section \<open>The outcomes of fetching\<close>

lemma getitem_error:
  "getitem v k = Inl e \<Longrightarrow> \<not> is_request_exception e"
  by (cases v) (auto simp: is_request_exception_def split: option.splits)

text \<open>
  Claim C7. When \<^verbatim>\<open>requests.get\<close> raises a request exception, or \<^verbatim>\<open>raise_for_status\<close>
  raises for the status of the response, \<^verbatim>\<open>fetch_recipes\<close> prints the failure and
  returns the empty list, and the run then prints that there is nothing to store and
  ends without an error. When the body is decoded and has the key \<^verbatim>\<open>recipes\<close>, the value
  under that key is returned as it is. When the decoded body has no such key, or is not
  a dictionary, the exception of the lookup leaves \<^verbatim>\<open>fetch_recipes\<close> and ends the run.
\<close>

theorem fetch_recipes_outcomes:
  "(requests_get env = Inl e \<and> is_request_exception e \<longrightarrow>
      fetch_recipes env s = (Inr (PList []), s\<lparr>events := events s @ [Print (Fetch_failed e)]\<rparr>))
   \<and> (requests_get env = Inr resp \<and> status_error resp = Some e \<and> is_request_exception e \<longrightarrow>
      fetch_recipes env s = (Inr (PList []), s\<lparr>events := events s @ [Print (Fetch_failed e)]\<rparr>))
   \<and> (requests_get env = Inr resp \<and> status_error resp = None \<and> json_body resp = Inr data
        \<and> getitem data ''recipes'' = Inr recipes \<longrightarrow>
      fetch_recipes env s = (Inr recipes, s))
   \<and> (requests_get env = Inr resp \<and> status_error resp = None \<and> json_body resp = Inr data
        \<and> getitem data ''recipes'' = Inl e' \<longrightarrow>
      fetch_recipes env s = (Inl e', s)
      \<and> (initialize_uid_cache env s0 = (None, s) \<longrightarrow> main env s0 = (Some e', s)))
   \<and> (initialize_uid_cache env s0 = (None, s)
        \<and> fetch_recipes env s = (Inr (PList []), s1) \<longrightarrow>
      main env s0 = (None, s1\<lparr>events := events s1 @ [Print Nothing_to_store]\<rparr>))"
  using getitem_error [of data "''recipes''" e']
  by (auto simp: fetch_recipes_def fetch_try_def and_then_def main_def)

theorem fetch_recipes_outcomes_witness:
  "fetch_recipes (example_env\<lparr>requests_get := Inl RequestException\<rparr>) example_state
     = (Inr (PList []), example_state\<lparr>events := [Print (Fetch_failed RequestException)]\<rparr>)
   \<and> main (example_env\<lparr>requests_get := Inl RequestException\<rparr>) example_state
     = (None, example_state\<lparr>events :=
          [Print (Fetch_failed RequestException), Print Nothing_to_store]\<rparr>)
   \<and> fetch_recipes
        (example_env\<lparr>requests_get :=
           Inr \<lparr>status_error = Some HTTPError, json_body = Inl RequestException\<rparr>\<rparr>)
        example_state
     = (Inr (PList []), example_state\<lparr>events := [Print (Fetch_failed HTTPError)]\<rparr>)
   \<and> fetch_recipes example_env example_state
     = (Inr (PList [example_duplicate, example_recipe]), example_state)
   \<and> main (example_env\<lparr>requests_get :=
           Inr \<lparr>status_error = None, json_body = Inr (PDict [])\<rparr>\<rparr>) example_state
     = (Some KeyError, example_state)"
proof -
  have init: "initialize_uid_cache (example_env\<lparr>requests_get := r\<rparr>) example_state
      = (None, example_state)" for r
    by (simp add: initialize_uid_cache_def load_uid_cache_def example_env_def example_state_def
        example_loads_def example_cache_def)
  from fetch_recipes_outcomes
      [of "example_env\<lparr>requests_get := Inl RequestException\<rparr>" RequestException
        example_state _ _ _ _ example_state
        "example_state\<lparr>events := [Print (Fetch_failed RequestException)]\<rparr>"]
    init
  have a: "fetch_recipes (example_env\<lparr>requests_get := Inl RequestException\<rparr>) example_state
     = (Inr (PList []), example_state\<lparr>events := [Print (Fetch_failed RequestException)]\<rparr>)
   \<and> main (example_env\<lparr>requests_get := Inl RequestException\<rparr>) example_state
     = (None, example_state\<lparr>events :=
          [Print (Fetch_failed RequestException), Print Nothing_to_store]\<rparr>)"
    by (simp add: is_request_exception_def example_state_def)
  from fetch_recipes_outcomes
      [of "example_env\<lparr>requests_get :=
           Inr \<lparr>status_error = Some HTTPError, json_body = Inl RequestException\<rparr>\<rparr>" HTTPError
        example_state "\<lparr>status_error = Some HTTPError, json_body = Inl RequestException\<rparr>"]
  have b: "fetch_recipes
        (example_env\<lparr>requests_get :=
           Inr \<lparr>status_error = Some HTTPError, json_body = Inl RequestException\<rparr>\<rparr>)
        example_state
     = (Inr (PList []), example_state\<lparr>events := [Print (Fetch_failed HTTPError)]\<rparr>)"
    by (simp add: is_request_exception_def example_state_def)
  from fetch_recipes_outcomes
      [of example_env _ example_state
        "\<lparr>status_error = None,
          json_body = Inr (PDict [(PStr ''recipes'', PList [example_duplicate, example_recipe])])\<rparr>"
        "PDict [(PStr ''recipes'', PList [example_duplicate, example_recipe])]"
        "PList [example_duplicate, example_recipe]"]
  have c: "fetch_recipes example_env example_state
     = (Inr (PList [example_duplicate, example_recipe]), example_state)"
    by (simp add: example_env_def)
  from fetch_recipes_outcomes
      [of "example_env\<lparr>requests_get :=
           Inr \<lparr>status_error = None, json_body = Inr (PDict [])\<rparr>\<rparr>" _ example_state
        "\<lparr>status_error = None, json_body = Inr (PDict [])\<rparr>" "PDict []" _ KeyError example_state]
    init
  have d: "main (example_env\<lparr>requests_get :=
           Inr \<lparr>status_error = None, json_body = Inr (PDict [])\<rparr>\<rparr>) example_state
     = (Some KeyError, example_state)"
    by simp
  from a b c d show ?thesis by simp
qed

section \<open>The stored document\<close>

lemma build_document_instructions:
  assumes "build_document env recipe recipe_id = Inr doc"
  shows "\<exists>v. getitem recipe ''instructions'' = Inr v \<and>
     getitem doc ''instructions'' = Inr (if truthy v then v else PStr ''No instructions provided'')"
  using assms unfolding build_document_def and_then_Inr
  by (elim exE conjE) auto

lemma build_document_title:
  assumes "build_document env recipe recipe_id = Inr doc"
  shows "\<exists>t. getitem recipe ''title'' = Inr t"
  using assms unfolding build_document_def and_then_Inr
  by (elim exE conjE) auto

lemma store_recipe_writes:
  assumes "Db_set k doc \<in> set (drop (length (events s)) (events (snd (store_recipe env recipe s))))"
  shows "\<exists>i. getitem recipe ''id'' = Inr i \<and> build_document env recipe i = Inr doc \<and> k = py_str env i"
  using assms
  by (auto simp: store_recipe_def save_uid_cache_def Let_def
      split: sum.splits option.splits prod.splits if_splits)

text \<open>
  Claim C10. In every document that is built for the store, and so in every document
  \<^verbatim>\<open>store_recipes\<close> writes, the field \<^verbatim>\<open>instructions\<close> is the recipe's own
  \<^verbatim>\<open>instructions\<close> when that value is true as a truth value, and the text
  \<^verbatim>\<open>No instructions provided\<close> otherwise: the empty string is replaced, a string that is
  not empty is stored unchanged.
\<close>

theorem instructions_default:
  "(build_document env recipe recipe_id = Inr doc
    \<or> Db_set k doc \<in> set (drop (length (events s)) (events (snd (store_recipe env recipe s)))) \<longrightarrow>
      (\<exists>v. getitem recipe ''instructions'' = Inr v \<and>
         getitem doc ''instructions''
           = Inr (if truthy v then v else PStr ''No instructions provided'')))
   \<and> (build_document env recipe recipe_id = Inr doc \<and> getitem recipe ''instructions'' = Inr (PStr []) \<longrightarrow>
        getitem doc ''instructions'' = Inr (PStr ''No instructions provided''))
   \<and> (build_document env recipe recipe_id = Inr doc
        \<and> getitem recipe ''instructions'' = Inr (PStr (c # cs)) \<longrightarrow>
        getitem doc ''instructions'' = Inr (PStr (c # cs)))"
proof -
  let ?stored = "\<exists>v. getitem recipe ''instructions'' = Inr v \<and>
         getitem doc ''instructions''
           = Inr (if truthy v then v else PStr ''No instructions provided'')"
  have built: "?stored" if "build_document env recipe i = Inr doc" for i
    using that by (rule build_document_instructions)
  have written: "?stored"
    if "Db_set k doc \<in> set (drop (length (events s)) (events (snd (store_recipe env recipe s))))"
    using store_recipe_writes [OF that] built by blast
  have empty: "getitem doc ''instructions'' = Inr (PStr ''No instructions provided'')"
    if "build_document env recipe recipe_id = Inr doc"
      and "getitem recipe ''instructions'' = Inr (PStr [])"
    using built [OF that(1)] that(2) by auto
  have kept: "getitem doc ''instructions'' = Inr (PStr (c # cs))"
    if "build_document env recipe recipe_id = Inr doc"
      and "getitem recipe ''instructions'' = Inr (PStr (c # cs))"
    using built [OF that(1)] that(2) by auto
  from built written empty kept show ?thesis by blast
qed

theorem instructions_default_witness:
  "getitem example_recipe ''instructions'' = Inr (PStr [])
   \<and> (\<exists>doc. build_document example_env example_recipe (PInt 716429) = Inr doc
         \<and> getitem doc ''instructions'' = Inr (PStr ''No instructions provided''))"
proof -
  have instr: "getitem example_recipe ''instructions'' = Inr (PStr [])"
    by (simp add: example_recipe_def)
  obtain doc where doc: "build_document example_env example_recipe (PInt 716429) = Inr doc"
    by (simp add: build_document_def example_recipe_def example_env_def ingredients_of_def
        extract_equipment_def set_add_def nutritional_of_def extract_and_categorize_def
        categories_def clean_def is_digit_def is_letter_def is_space_def derive_calories_def
        int_of_digits_def digit_of_def py_str_def str_int_def str_nat.simps and_then_def)
  from instructions_default [of example_env example_recipe "PInt 716429" doc]
    instr doc
  have "getitem doc ''instructions'' = Inr (PStr ''No instructions provided'')" by simp
  with instr doc show ?thesis by blast
qed

section \<open>A batch with a duplicate and a new record\<close>

lemma and_then_Inl [simp]: "and_then (Inl e) f = Inl e"
  by (simp add: and_then_def)

lemma store_recipe_duplicate:
  assumes "getitem dup ''id'' = Inr i" and "recipe_exists env (uid_cache s) i = Inr found"
    and "truthy found" and "getitem dup ''title'' = Inr t"
  shows "try_recipe env dup s = (None, s\<lparr>events := events s @ [Print (Duplicate t)]\<rparr>)"
  using assms by (simp add: try_recipe_def store_recipe_def)

lemma store_recipe_new:
  assumes "getitem new ''id'' = Inr i" and "recipe_exists env (uid_cache s) i = Inr found"
    and "\<not> truthy found" and "build_document env new i = Inr doc"
    and "getitem new ''title'' = Inr t"
    and "set_error env (calls s) = None" and "write_error env (Suc (calls s)) = None"
    and "setitem (uid_cache s) (py_str env i) (PBool True) = Inr cache"
  shows "try_recipe env new s =
     (None, s\<lparr>uid_cache := cache,
              cache_file := Some (json_dumps env cache),
              events := events s @
                [Db_set (py_str env i) doc, Print (Stored t), Cache_add (py_str env i),
                 File_write (json_dumps env cache)],
              calls := Suc (Suc (calls s))\<rparr>)"
  using assms by (simp add: try_recipe_def store_recipe_def save_uid_cache_def Let_def)

lemma recipe_exists_setitem:
  assumes "recipe_exists env cache i = Inr found"
  shows "\<exists>cache'. setitem cache k v = Inr cache'"
  using assms by (cases cache) (auto simp: recipe_exists_def)

lemma recipe_exists_other:
  assumes "setitem cache (py_str env i2) v = Inr cache'"
    and "py_str env i1 \<noteq> py_str env i2"
  shows "recipe_exists env cache' i1 = recipe_exists env cache i1"
  using assms by (cases cache) (auto simp: recipe_exists_def)

text \<open>
  Claim C4. Take a batch of two records, one whose identifier the cache already marks
  and one whose identifier it does not, where the new record builds into a document and
  neither the store nor the writing of the cache file fails. Then \<^verbatim>\<open>store_recipes\<close>
  returns, and in either order of the two records what it does is: one call of
  \<^verbatim>\<open>doc_ref.set\<close>, for the new record, then one addition to the cache, of the new
  identifier, then the writing of the file; for the record already cached it prints the
  duplicate message and does nothing else.
\<close>

theorem one_write_then_one_add:
  assumes "getitem dup ''id'' = Inr i1" and "recipe_exists env (uid_cache s) i1 = Inr found1"
    and "truthy found1" and "getitem dup ''title'' = Inr t1"
    and "getitem new ''id'' = Inr i2" and "recipe_exists env (uid_cache s) i2 = Inr found2"
    and "\<not> truthy found2" and "build_document env new i2 = Inr doc"
    and "getitem new ''title'' = Inr t2"
    and "set_error env (calls s) = None" and "write_error env (Suc (calls s)) = None"
  shows "\<exists>cache. setitem (uid_cache s) (py_str env i2) (PBool True) = Inr cache
     \<and> store_recipes env (PList [dup, new]) s =
         (None, s\<lparr>uid_cache := cache,
                  cache_file := Some (json_dumps env cache),
                  events := events s @
                    [Print (Duplicate t1),
                     Db_set (py_str env i2) doc, Print (Stored t2), Cache_add (py_str env i2),
                     File_write (json_dumps env cache)],
                  calls := Suc (Suc (calls s))\<rparr>)
     \<and> store_recipes env (PList [new, dup]) s =
         (None, s\<lparr>uid_cache := cache,
                  cache_file := Some (json_dumps env cache),
                  events := events s @
                    [Db_set (py_str env i2) doc, Print (Stored t2), Cache_add (py_str env i2),
                     File_write (json_dumps env cache),
                     Print (Duplicate t1)],
                  calls := Suc (Suc (calls s))\<rparr>)"
proof -
  from recipe_exists_setitem [OF assms(6)]
  obtain cache where add: "setitem (uid_cache s) (py_str env i2) (PBool True) = Inr cache"
    by blast
  let ?s1 = "s\<lparr>events := events s @ [Print (Duplicate t1)]\<rparr>"
  have first: "try_recipe env dup s = (None, ?s1)"
    using assms(1-4) by (rule store_recipe_duplicate)
  have second: "try_recipe env new ?s1 =
     (None, ?s1\<lparr>uid_cache := cache,
              cache_file := Some (json_dumps env cache),
              events := events ?s1 @
                [Db_set (py_str env i2) doc, Print (Stored t2), Cache_add (py_str env i2),
                 File_write (json_dumps env cache)],
              calls := Suc (Suc (calls ?s1))\<rparr>)"
    by (rule store_recipe_new [where found = found2]) (use assms add in simp_all)
  let ?s2 = "s\<lparr>uid_cache := cache,
              cache_file := Some (json_dumps env cache),
              events := events s @
                [Db_set (py_str env i2) doc, Print (Stored t2), Cache_add (py_str env i2),
                 File_write (json_dumps env cache)],
              calls := Suc (Suc (calls s))\<rparr>"
  have third: "try_recipe env new s = (None, ?s2)"
    by (rule store_recipe_new [where found = found2]) (use assms add in simp_all)
  have keys: "py_str env i1 \<noteq> py_str env i2"
    using assms(2,3,6,7) by (auto simp: recipe_exists_def)
  have "recipe_exists env (uid_cache ?s2) i1 = Inr found1"
    using recipe_exists_other [OF add keys] assms(2) by simp
  then have fourth: "try_recipe env dup ?s2 = (None, ?s2\<lparr>events := events ?s2 @ [Print (Duplicate t1)]\<rparr>)"
    using assms(1,3,4) store_recipe_duplicate [of dup i1 env ?s2 found1 t1] by simp
  from add first second third fourth show ?thesis
    by (intro exI [of _ cache]) (simp add: store_recipes_def)
qed

lemma example_key: "py_str env (PInt 716429) = ''716429''"
  by (simp add: py_str_def str_int_def str_nat.simps)

lemma example_build:
  "build_document example_env example_recipe (PInt 716429) = Inr example_document"
  by (simp add: build_document_def example_recipe_def example_env_def ingredients_of_def
      extract_equipment_def set_add_def nutritional_of_def extract_and_categorize_def
      categories_def clean_def is_digit_def is_letter_def is_space_def derive_calories_def
      int_of_digits_def digit_of_def py_str_def str_int_def str_nat.simps and_then_def
      example_document_def str_dict_def)

theorem one_write_then_one_add_witness:
  "store_recipes example_env (PList [example_duplicate, example_recipe]) example_state =
     (None, example_state\<lparr>uid_cache := example_cache',
        cache_file := Some example_text',
        events :=
          [Print (Duplicate (PStr ''Soup'')),
           Db_set ''716429'' example_document, Print (Stored (PStr ''Pasta'')),
           Cache_add ''716429'', File_write example_text'],
        calls := 2\<rparr>)"
proof -
  have dup: "getitem example_duplicate ''id'' = Inr (PInt 100)"
    "getitem example_duplicate ''title'' = Inr (PStr ''Soup'')"
    "recipe_exists example_env (uid_cache example_state) (PInt 100) = Inr (PBool True)"
    by (simp_all add: example_duplicate_def recipe_exists_def example_state_def example_cache_def
        py_str_def str_int_def str_nat.simps)
  have new: "getitem example_recipe ''id'' = Inr (PInt 716429)"
    "getitem example_recipe ''title'' = Inr (PStr ''Pasta'')"
    "recipe_exists example_env (uid_cache example_state) (PInt 716429) = Inr (PBool False)"
    by (simp_all add: example_recipe_def recipe_exists_def example_state_def example_cache_def
        example_key)
  have ok: "set_error example_env (calls example_state) = None"
    "write_error example_env (Suc (calls example_state)) = None"
    by (simp_all add: example_env_def)
  have add: "setitem (uid_cache example_state) ''716429'' (PBool True) = Inr example_cache'"
    by (simp add: example_state_def example_cache_def example_cache'_def)
  have dumps: "json_dumps example_env example_cache' = example_text'"
    by (simp add: example_env_def example_dumps_def example_cache_def example_cache'_def)
  from one_write_then_one_add [OF dup(1) dup(3) _ dup(2) new(1) new(3) _ example_build new(2) ok]
    add dumps
  show ?thesis
    by (auto simp: example_key example_state_def numeral_2_eq_2)
qed

section \<open>Exceptions while a record is stored\<close>

text \<open>A record with a title never ends the batch: the exception is printed with the
  title and the loop goes on. A record without a title always does.\<close>

lemma store_recipe_untitled:
  assumes "getitem r ''title'' = Inl e"
  shows "\<exists>e'. store_recipe env r s = (Some e', s)"
proof -
  have unbuilt: "build_document env r i \<noteq> Inr doc" for i doc
    using build_document_title [of env r i doc] assms by auto
  show ?thesis
    using assms by (auto simp: store_recipe_def unbuilt split: sum.splits)
qed

lemma untitled_aborts:
  assumes "getitem r ''title'' = Inl e"
  shows "store_recipes env (PList (r # rest)) s = (Some e, s)"
  using store_recipe_untitled [OF assms, of env s] assms
  by (auto simp: store_recipes_def try_recipe_def)

lemma try_recipe_titled:
  assumes "getitem r ''title'' = Inr t"
  shows "fst (try_recipe env r s) = None"
    and "store_recipe env r s = (Some e, s') \<Longrightarrow>
         try_recipe env r s = (None, s'\<lparr>events := events s' @ [Print (Store_failed t e)]\<rparr>)"
  using assms by (auto simp: try_recipe_def split: prod.splits option.splits)

lemma titled_batch_completes:
  assumes "list_all (\<lambda>r. \<exists>t. getitem r ''title'' = Inr t) rs"
  shows "fst (store_recipes env (PList rs) s) = None"
proof -
  from assms have "fst (run_all (try_recipe env) rs s) = None"
  proof (induction rs arbitrary: s)
    case Nil
    then show ?case by simp
  next
    case (Cons r rs)
    then obtain t where "getitem r ''title'' = Inr t" by auto
    then have "fst (try_recipe env r s) = None" by (rule try_recipe_titled(1))
    then obtain s' where "try_recipe env r s = (None, s')"
      by (cases "try_recipe env r s") auto
    with Cons show ?case by simp
  qed
  then show ?thesis by (simp add: store_recipes_def)
qed

text \<open>
  Claim C2, on a record without a title. The body of the \<^verbatim>\<open>try\<close> raises KeyError for the
  first record of this batch; the handler, which prints \<^verbatim>\<open>recipe['title']\<close>, raises
  KeyError again, and \<^verbatim>\<open>store_recipes\<close> ends with that exception: nothing is printed and
  the second record, which could be stored, is never processed.
\<close>

theorem untitled_record_aborts_batch:
  "store_recipes example_env (PList [example_untitled, example_recipe]) example_state
     = (Some KeyError, example_state)"
  by (simp add: store_recipes_def try_recipe_def store_recipe_def example_untitled_def
      recipe_exists_def py_str_def str_int_def str_nat.simps example_state_def example_cache_def
      build_document_def ingredients_of_def)

end
